theory Spec2Isabelle
  imports Main "HOL-Library.Word"
begin

unbundle bit_operations_syntax

section \<open>The ENV-COMBO I2C sensor driver (env-combo.c)\<close>

text \<open>
  A shallow embedding of \<^verbatim>\<open>env_combo_read_raw\<close> and \<^verbatim>\<open>env_combo_probe\<close>.
  C \<^verbatim>\<open>int\<close> is a 32-bit word read as two's complement (\<open>sint\<close>, \<open><s\<close>); \<^verbatim>\<open>long\<close> is
  a 64-bit word. Pointers that the code tests against NULL are options (\<open>None\<close> is NULL).
\<close>

type_synonym u8 = "8 word"
type_synonym s32 = "32 word"
type_synonym s64 = "64 word"

subsection \<open>Constants of the driver\<close>

definition REG_WHO_AM_I :: u8 where "REG_WHO_AM_I = 0x00"
definition REG_TEMP_MSB :: u8 where "REG_TEMP_MSB = 0x01"
definition REG_TEMP_LSB :: u8 where "REG_TEMP_LSB = 0x02"
definition REG_HUM_OUT :: u8 where "REG_HUM_OUT = 0x03"
definition REG_CFG :: u8 where "REG_CFG = 0x06"
definition REG_STATUS :: u8 where "REG_STATUS = 0x0C"
definition REG_CALIB_TEMP_MSB :: u8 where "REG_CALIB_TEMP_MSB = 0x0D"
definition REG_CALIB_TEMP_LSB :: u8 where "REG_CALIB_TEMP_LSB = 0x0E"
definition REG_CALIB_HUM :: u8 where "REG_CALIB_HUM = 0x0F"

definition CFG_TEMP_EN :: u8 where "CFG_TEMP_EN = 0x40"
definition CFG_DEFAULT :: u8 where "CFG_DEFAULT = CFG_TEMP_EN"
definition WHO_AM_I_EXPECTED :: s32 where "WHO_AM_I_EXPECTED = 0xEB"

definition STATUS_TEMP_RDY_MASK :: s32 where "STATUS_TEMP_RDY_MASK = 0x02"
definition STATUS_HUM_RDY_MASK :: s32 where "STATUS_HUM_RDY_MASK = 0x04"

definition TEMP_SHIFT_BITS :: nat where "TEMP_SHIFT_BITS = 8"
definition TEMP_CHANNEL_INDEX :: nat where "TEMP_CHANNEL_INDEX = 0"
definition HUM_CHANNEL_INDEX :: nat where "HUM_CHANNEL_INDEX = 1"
definition BYTE_MASK :: s32 where "BYTE_MASK = 0xFF"

subsection \<open>Constants of the Linux headers the driver includes\<close>

text \<open>
  The errno values of \<^verbatim>\<open>errno-base.h\<close>, and \<^verbatim>\<open>IIO_VAL_INT\<close> and
  \<^verbatim>\<open>IIO_CHAN_INFO_RAW\<close> of the IIO headers. The driver returns the errno values negated.
\<close>

definition EIO :: s32 where "EIO = 5"
definition EAGAIN :: s32 where "EAGAIN = 11"
definition ENOMEM :: s32 where "ENOMEM = 12"
definition ENODEV :: s32 where "ENODEV = 19"
definition EINVAL :: s32 where "EINVAL = 22"
definition IIO_VAL_INT :: s32 where "IIO_VAL_INT = 1"
definition IIO_CHAN_INFO_RAW :: s64 where "IIO_CHAN_INFO_RAW = 0"

text \<open>
  \<^verbatim>\<open>enum iio_chan_type\<close>: the two members the driver switches on, and every other
  discriminant of the kernel's enumeration under \<open>IIO_OTHER\<close>.
\<close>

datatype iio_chan_type = IIO_TEMP | IIO_HUMIDITYRELATIVE | IIO_OTHER nat

record iio_chan_spec =
  type :: iio_chan_type
  indexed :: nat
  channel :: nat
  scan_index :: nat

definition env_combo_channels :: "iio_chan_spec list" where
  "env_combo_channels =
     [\<lparr>type = IIO_TEMP, indexed = 1, channel = TEMP_CHANNEL_INDEX,
       scan_index = TEMP_CHANNEL_INDEX\<rparr>,
      \<lparr>type = IIO_HUMIDITYRELATIVE, indexed = 1, channel = HUM_CHANNEL_INDEX,
       scan_index = HUM_CHANNEL_INDEX\<rparr>]"

subsection \<open>The bus and the mutex\<close>

text \<open>
  One SMBus transaction is a byte read of a register or a byte write to it. The bus and
  the device behind it are a function \<open>adapter\<close> from the transactions issued so far and
  the present one to the C \<^verbatim>\<open>int\<close> that the kernel's \<^verbatim>\<open>i2c_smbus_read_byte_data\<close> or
  \<^verbatim>\<open>i2c_smbus_write_byte_data\<close> returns: a negative errno, the byte read (0 to 255), or 0
  for a write that went through. \<open>xfers\<close> records the transactions in program order.
\<close>

datatype i2c_xfer = Read_byte_data u8 | Write_byte_data u8 u8

record i2c_client =
  adapter :: "i2c_xfer list \<Rightarrow> i2c_xfer \<Rightarrow> s32"
  xfers :: "i2c_xfer list"

definition i2c_smbus_read_byte_data :: "i2c_client \<Rightarrow> u8 \<Rightarrow> s32 \<times> i2c_client" where
  "i2c_smbus_read_byte_data cl reg =
     (adapter cl (xfers cl) (Read_byte_data reg),
      cl\<lparr>xfers := xfers cl @ [Read_byte_data reg]\<rparr>)"

definition i2c_smbus_write_byte_data :: "i2c_client \<Rightarrow> u8 \<Rightarrow> u8 \<Rightarrow> s32 \<times> i2c_client" where
  "i2c_smbus_write_byte_data cl reg v =
     (adapter cl (xfers cl) (Write_byte_data reg v),
      cl\<lparr>xfers := xfers cl @ [Write_byte_data reg v]\<rparr>)"

text \<open>
  The mutex: whether it is held, and how often it has been taken. Waiting for another
  holder is outside a sequential model; taking the mutex marks it held.
\<close>

record mutex =
  held :: bool
  acquired :: nat

definition mutex_init :: mutex where
  "mutex_init = \<lparr>held = False, acquired = 0\<rparr>"

definition mutex_lock :: "mutex \<Rightarrow> mutex" where
  "mutex_lock m = m\<lparr>held := True, acquired := Suc (acquired m)\<rparr>"

definition mutex_unlock :: "mutex \<Rightarrow> mutex" where
  "mutex_unlock m = m\<lparr>held := False\<rparr>"

subsection \<open>Driver private data\<close>

text \<open>\<^verbatim>\<open>struct env_combo_data\<close>; the client it points to is held by value.\<close>

record env_combo_data =
  client :: i2c_client
  lock :: mutex
  temp_calib :: s32
  hum_calib :: s32

subsection \<open>\<^verbatim>\<open>env_combo_read_raw\<close>\<close>

text \<open>
  The label \<^verbatim>\<open>out\<close>: unlock and return \<^verbatim>\<open>ret\<close>. The result of the function is the
  return value, the contents of \<^verbatim>\<open>*val\<close> afterwards, and the private data afterwards.
  The private data stand for \<^verbatim>\<open>iio_priv(indio_dev)\<close>; \<^verbatim>\<open>val2\<close> is not used by the driver.
  The parameter \<^verbatim>\<open>mask\<close> is \<open>info_mask\<close> here (\<open>mask\<close> is a constant of the word library).
\<close>

definition out :: "s32 \<Rightarrow> s32 option \<Rightarrow> env_combo_data \<Rightarrow> s32 \<times> s32 option \<times> env_combo_data" where
  "out ret val data = (ret, val, data\<lparr>lock := mutex_unlock (lock data)\<rparr>)"

text \<open>A bus read through \<^verbatim>\<open>data->client\<close>.\<close>

definition read_reg :: "env_combo_data \<Rightarrow> u8 \<Rightarrow> s32 \<times> env_combo_data" where
  "read_reg data reg =
     (let (v, cl) = i2c_smbus_read_byte_data (client data) reg
      in (v, data\<lparr>client := cl\<rparr>))"

definition env_combo_read_raw ::
  "env_combo_data \<Rightarrow> iio_chan_spec option \<Rightarrow> s32 option \<Rightarrow> s64
     \<Rightarrow> s32 \<times> s32 option \<times> env_combo_data" where
  "env_combo_read_raw data chan val info_mask =
     (case chan of
        None \<Rightarrow> (- EINVAL, val, data)
      | Some ch \<Rightarrow>
     (case val of
        None \<Rightarrow> (- EINVAL, val, data)
      | Some _ \<Rightarrow>
        if info_mask \<noteq> IIO_CHAN_INFO_RAW then (- EINVAL, val, data)
        else
          let data = data\<lparr>lock := mutex_lock (lock data)\<rparr>;
              (status, data) = read_reg data REG_STATUS
          in
          if status <s 0 then out (- EIO) val data
          else
            (case type ch of
               IIO_TEMP \<Rightarrow>
                 if status AND STATUS_TEMP_RDY_MASK = 0 then out (- EAGAIN) val data
                 else
                   let (temp_msb, data) = read_reg data REG_TEMP_MSB in
                   if temp_msb <s 0 then out (- EIO) val data
                   else
                     let (temp_lsb, data) = read_reg data REG_TEMP_LSB in
                     if temp_lsb <s 0 then out (- EIO) val data
                     else
                       let raw_data =
                             (push_bit TEMP_SHIFT_BITS temp_msb OR (temp_lsb AND BYTE_MASK))
                               + temp_calib data
                       in out IIO_VAL_INT (Some raw_data) data
             | IIO_HUMIDITYRELATIVE \<Rightarrow>
                 if status AND STATUS_HUM_RDY_MASK = 0 then out (- EAGAIN) val data
                 else
                   let (hum_lsb, data) = read_reg data REG_HUM_OUT in
                   if hum_lsb <s 0 then out (- EIO) val data
                   else
                     let raw_data = hum_lsb + hum_calib data
                     in out IIO_VAL_INT (Some raw_data) data
             | IIO_OTHER _ \<Rightarrow> out (- EINVAL) val data)))"

subsection \<open>\<^verbatim>\<open>env_combo_probe\<close>\<close>

text \<open>
  \<^verbatim>\<open>struct i2c_device_id\<close>: the name and the driver data of a table entry.
\<close>

type_synonym i2c_device_id = "string \<times> nat"

definition env_combo_id :: "i2c_device_id list" where
  "env_combo_id = [(''env-combo'', 0)]"

text \<open>
  The two calls into the kernel whose outcome the driver tests but does not decide are
  parameters: \<open>alloc_ok\<close> says that \<^verbatim>\<open>devm_iio_device_alloc\<close> returned memory (zeroed),
  \<open>register_ret\<close> is what \<^verbatim>\<open>devm_iio_device_register\<close> returns (0 when the device is
  registered). The result is the return value, the client afterwards, and the private
  data of the registered IIO device: device-managed memory is released when probe
  returns an error, so the data exist afterwards only when the registration succeeded.
\<close>

definition env_combo_probe ::
  "i2c_client option \<Rightarrow> i2c_device_id option \<Rightarrow> bool \<Rightarrow> s32
     \<Rightarrow> s32 \<times> i2c_client option \<times> env_combo_data option" where
  "env_combo_probe client_ptr id_ptr alloc_ok register_ret =
     (case client_ptr of
        None \<Rightarrow> (- EINVAL, None, None)
      | Some cl \<Rightarrow>
     (case id_ptr of
        None \<Rightarrow> (- EINVAL, Some cl, None)
      | Some _ \<Rightarrow>
        let (id_reg, cl) = i2c_smbus_read_byte_data cl REG_WHO_AM_I in
        if id_reg <s 0 \<or> id_reg \<noteq> WHO_AM_I_EXPECTED then (- ENODEV, Some cl, None)
        else if \<not> alloc_ok then (- ENOMEM, Some cl, None)
        else
          let (calib_msb, cl) = i2c_smbus_read_byte_data cl REG_CALIB_TEMP_MSB in
          if calib_msb <s 0 then (- EIO, Some cl, None)
          else
            let (calib_lsb, cl) = i2c_smbus_read_byte_data cl REG_CALIB_TEMP_LSB in
            if calib_lsb <s 0 then (- EIO, Some cl, None)
            else
              let temp_calib_v = push_bit TEMP_SHIFT_BITS calib_msb OR calib_lsb;
                  (calib_msb, cl) = i2c_smbus_read_byte_data cl REG_CALIB_HUM
              in
              if calib_msb <s 0 then (- EIO, Some cl, None)
              else
                let hum_calib_v = calib_msb;
                    (ret, cl) = i2c_smbus_write_byte_data cl REG_CFG CFG_DEFAULT
                in
                if ret <s 0 then (ret, Some cl, None)
                else
                  let ret = register_ret in
                  (ret, Some cl,
                   if ret \<noteq> 0 then None
                   else Some \<lparr>client = cl, lock = mutex_init,
                              temp_calib = temp_calib_v, hum_calib = hum_calib_v\<rparr>)))"

section \<open>Vocabulary of the statements\<close>

text \<open>The three components of a result.\<close>

abbreviation ret_of :: "'a \<times> 'b \<times> 'c \<Rightarrow> 'a" where
  "ret_of r \<equiv> fst r"

abbreviation val_of :: "'a \<times> 'b \<times> 'c \<Rightarrow> 'b" where
  "val_of r \<equiv> fst (snd r)"

abbreviation data_of :: "'a \<times> 'b \<times> 'c \<Rightarrow> 'c" where
  "data_of r \<equiv> snd (snd r)"

text \<open>The second and third component of what probe returns.\<close>

abbreviation client_of :: "'a \<times> 'b \<times> 'c \<Rightarrow> 'b" where
  "client_of r \<equiv> fst (snd r)"

abbreviation session_of :: "'a \<times> 'b \<times> 'c \<Rightarrow> 'c" where
  "session_of r \<equiv> snd (snd r)"

text \<open>
  \<open>bus_reply cl issued x\<close> is what the bus answers to transaction \<open>x\<close> once the
  transactions \<open>issued\<close> have followed those already recorded in \<open>cl\<close>.
\<close>

definition bus_reply :: "i2c_client \<Rightarrow> i2c_xfer list \<Rightarrow> i2c_xfer \<Rightarrow> s32" where
  "bus_reply cl issued x = adapter cl (xfers cl @ issued) x"

text \<open>The client after the transactions \<open>xs\<close> have been issued.\<close>

definition issue :: "i2c_client \<Rightarrow> i2c_xfer list \<Rightarrow> i2c_client" where
  "issue cl xs = cl\<lparr>xfers := xfers cl @ xs\<rparr>"

text \<open>
  The private data after a section that took the mutex, issued \<open>xs\<close> and released the
  mutex again.
\<close>

definition locked_section :: "env_combo_data \<Rightarrow> i2c_xfer list \<Rightarrow> env_combo_data" where
  "locked_section data xs =
     data\<lparr>client := issue (client data) xs,
          lock := (lock data)\<lparr>held := False, acquired := Suc (acquired (lock data))\<rparr>\<rparr>"

text \<open>
  The transactions of a complete probe, in order, and the answer of the bus to the
  \<open>n\<close>-th of them once those before it have been issued.
\<close>

definition probe_sequence :: "i2c_xfer list" where
  "probe_sequence =
     [Read_byte_data REG_WHO_AM_I, Read_byte_data REG_CALIB_TEMP_MSB,
      Read_byte_data REG_CALIB_TEMP_LSB, Read_byte_data REG_CALIB_HUM,
      Write_byte_data REG_CFG 0x40]"

definition probe_reply :: "i2c_client \<Rightarrow> nat \<Rightarrow> s32" where
  "probe_reply cl n = bus_reply cl (take n probe_sequence) (probe_sequence ! n)"

section \<open>Example devices and sessions\<close>

text \<open>
  A device for the examples: every register read returns the fixed contents \<open>regs\<close>,
  every write goes through.
\<close>

definition fixed_registers :: "(u8 \<Rightarrow> s32) \<Rightarrow> i2c_client" where
  "fixed_registers regs =
     \<lparr>adapter = (\<lambda>_ x. case x of Read_byte_data r \<Rightarrow> regs r | Write_byte_data _ _ \<Rightarrow> 0),
      xfers = []\<rparr>"

text \<open>
  A session for the examples: both channels ready (status \<open>0x06\<close>), \<^verbatim>\<open>TEMP_MSB = 0x00\<close>,
  \<^verbatim>\<open>TEMP_LSB = 0x64\<close>, \<^verbatim>\<open>HUM_OUT = 0x32\<close>, calibration offsets 258 and 5.
\<close>

definition bench_regs :: "u8 \<Rightarrow> s32" where
  "bench_regs r =
     (if r = REG_STATUS then 0x06 else if r = REG_TEMP_LSB then 0x64
      else if r = REG_HUM_OUT then 0x32 else 0)"

definition bench :: env_combo_data where
  "bench = \<lparr>client = fixed_registers bench_regs, lock = mutex_init,
             temp_calib = 258, hum_calib = 5\<rparr>"

text \<open>The same session with no channel ready (status \<open>0x00\<close>).\<close>

definition idle_bench :: env_combo_data where
  "idle_bench = \<lparr>client = fixed_registers (\<lambda>r. 0), lock = mutex_init,
                  temp_calib = 258, hum_calib = 5\<rparr>"

text \<open>A session whose bus fails every transaction with \<^verbatim>\<open>-EIO\<close>.\<close>

definition dead_bench :: env_combo_data where
  "dead_bench = \<lparr>client = \<lparr>adapter = (\<lambda>_ _. - EIO), xfers = []\<rparr>, lock = mutex_init,
                  temp_calib = 258, hum_calib = 5\<rparr>"

definition temp_chan :: iio_chan_spec where
  "temp_chan = env_combo_channels ! 0"

definition hum_chan :: iio_chan_spec where
  "hum_chan = env_combo_channels ! 1"

text \<open>A channel specification of a type the driver has no case for.\<close>

definition other_chan :: iio_chan_spec where
  "other_chan = \<lparr>type = IIO_OTHER 0, indexed = 1, channel = 2, scan_index = 2\<rparr>"

text \<open>
  Devices for the examples. \<open>good_client\<close> identifies as \<open>0xEB\<close> and holds the calibration
  bytes \<open>0x01\<close>, \<open>0x02\<close> and \<open>0x05\<close>; \<open>ff_client\<close> holds \<open>0xFF\<close> in all three calibration
  registers; \<open>wrong_id_client\<close> identifies as \<open>0x00\<close>; \<open>cfg_fail_client\<close> and
  \<open>calib_fail_client\<close> are \<open>good_client\<close> with every write, respectively every read of a
  calibration register, failing with \<^verbatim>\<open>-EIO\<close>.
\<close>

definition good_regs :: "u8 \<Rightarrow> s32" where
  "good_regs r =
     (if r = REG_WHO_AM_I then 0xEB else if r = REG_CALIB_TEMP_MSB then 0x01
      else if r = REG_CALIB_TEMP_LSB then 0x02 else if r = REG_CALIB_HUM then 0x05 else 0)"

definition good_client :: i2c_client where
  "good_client = fixed_registers good_regs"

definition ff_client :: i2c_client where
  "ff_client = fixed_registers (\<lambda>r. if r = REG_WHO_AM_I then 0xEB else 0xFF)"

definition wrong_id_client :: i2c_client where
  "wrong_id_client = fixed_registers (\<lambda>r. 0)"

definition cfg_fail_client :: i2c_client where
  "cfg_fail_client =
     \<lparr>adapter = (\<lambda>_ x. case x of Read_byte_data r \<Rightarrow> good_regs r
                              | Write_byte_data _ _ \<Rightarrow> - EIO),
      xfers = []\<rparr>"

definition calib_fail_client :: i2c_client where
  "calib_fail_client =
     \<lparr>adapter = (\<lambda>_ x. case x of
                     Read_byte_data r \<Rightarrow> if r = REG_WHO_AM_I then 0xEB else - EIO
                   | Write_byte_data _ _ \<Rightarrow> 0),
      xfers = []\<rparr>"

text \<open>The sessions that a probe of \<open>good_client\<close> and of \<open>ff_client\<close> registers.\<close>

definition good_session :: env_combo_data where
  "good_session = \<lparr>client = issue good_client probe_sequence, lock = mutex_init,
                    temp_calib = 258, hum_calib = 5\<rparr>"

definition ff_session :: env_combo_data where
  "ff_session = \<lparr>client = issue ff_client probe_sequence, lock = mutex_init,
                  temp_calib = 0xFFFF, hum_calib = 0xFF\<rparr>"

section \<open>Collected definitions\<close>

lemmas reg_defs =
  REG_WHO_AM_I_def REG_TEMP_MSB_def REG_TEMP_LSB_def REG_HUM_OUT_def REG_CFG_def
  REG_STATUS_def REG_CALIB_TEMP_MSB_def REG_CALIB_TEMP_LSB_def REG_CALIB_HUM_def

lemmas drv_defs =
  CFG_TEMP_EN_def CFG_DEFAULT_def WHO_AM_I_EXPECTED_def STATUS_TEMP_RDY_MASK_def
  STATUS_HUM_RDY_MASK_def TEMP_SHIFT_BITS_def BYTE_MASK_def

lemmas errno_defs = EIO_def EAGAIN_def ENOMEM_def ENODEV_def EINVAL_def IIO_VAL_INT_def

lemmas bench_defs =
  bench_def idle_bench_def dead_bench_def bench_regs_def fixed_registers_def mutex_init_def
  temp_chan_def hum_chan_def other_chan_def env_combo_channels_def
  TEMP_CHANNEL_INDEX_def HUM_CHANNEL_INDEX_def

section \<open>The paths of \<^verbatim>\<open>env_combo_read_raw\<close>\<close>

lemmas read_raw_unfold =
  env_combo_read_raw_def out_def read_reg_def i2c_smbus_read_byte_data_def
  mutex_lock_def mutex_unlock_def Let_def split_def
  bus_reply_def issue_def locked_section_def

lemma read_raw_null_chan:
  "env_combo_read_raw data None val info_mask = (- EINVAL, val, data)"
  by (simp add: env_combo_read_raw_def)

lemma read_raw_null_val:
  "env_combo_read_raw data chan None info_mask = (- EINVAL, None, data)"
  by (simp add: env_combo_read_raw_def split: option.splits)

lemma read_raw_status_fails:
  "bus_reply (client data) [] (Read_byte_data REG_STATUS) <s 0 \<Longrightarrow>
   env_combo_read_raw data (Some ch) (Some v) IIO_CHAN_INFO_RAW =
     (- EIO, Some v, locked_section data [Read_byte_data REG_STATUS])"
  by (simp add: read_raw_unfold)

lemma read_raw_temp_not_ready:
  assumes "type ch = IIO_TEMP"
    and "\<not> bus_reply (client data) [] (Read_byte_data REG_STATUS) <s 0"
    and "bus_reply (client data) [] (Read_byte_data REG_STATUS) AND STATUS_TEMP_RDY_MASK = 0"
  shows "env_combo_read_raw data (Some ch) (Some v) IIO_CHAN_INFO_RAW =
           (- EAGAIN, Some v, locked_section data [Read_byte_data REG_STATUS])"
  using assms by (simp add: read_raw_unfold)

lemma read_raw_hum_not_ready:
  assumes "type ch = IIO_HUMIDITYRELATIVE"
    and "\<not> bus_reply (client data) [] (Read_byte_data REG_STATUS) <s 0"
    and "bus_reply (client data) [] (Read_byte_data REG_STATUS) AND STATUS_HUM_RDY_MASK = 0"
  shows "env_combo_read_raw data (Some ch) (Some v) IIO_CHAN_INFO_RAW =
           (- EAGAIN, Some v, locked_section data [Read_byte_data REG_STATUS])"
  using assms by (simp add: read_raw_unfold)

lemma read_raw_temp:
  assumes "type ch = IIO_TEMP"
    and "\<not> bus_reply (client data) [] (Read_byte_data REG_STATUS) <s 0"
    and "bus_reply (client data) [] (Read_byte_data REG_STATUS) AND STATUS_TEMP_RDY_MASK \<noteq> 0"
    and "temp_msb = bus_reply (client data) [Read_byte_data REG_STATUS]
                      (Read_byte_data REG_TEMP_MSB)"
    and "\<not> temp_msb <s 0"
    and "temp_lsb = bus_reply (client data)
                      [Read_byte_data REG_STATUS, Read_byte_data REG_TEMP_MSB]
                      (Read_byte_data REG_TEMP_LSB)"
    and "\<not> temp_lsb <s 0"
  shows "env_combo_read_raw data (Some ch) (Some v) IIO_CHAN_INFO_RAW =
           (IIO_VAL_INT,
            Some ((push_bit 8 temp_msb OR (temp_lsb AND 0xFF)) + temp_calib data),
            locked_section data
              [Read_byte_data REG_STATUS, Read_byte_data REG_TEMP_MSB,
               Read_byte_data REG_TEMP_LSB])"
  using assms by (simp add: read_raw_unfold drv_defs)

lemma read_raw_hum:
  assumes "type ch = IIO_HUMIDITYRELATIVE"
    and "\<not> bus_reply (client data) [] (Read_byte_data REG_STATUS) <s 0"
    and "bus_reply (client data) [] (Read_byte_data REG_STATUS) AND STATUS_HUM_RDY_MASK \<noteq> 0"
    and "hum_out = bus_reply (client data) [Read_byte_data REG_STATUS]
                     (Read_byte_data REG_HUM_OUT)"
    and "\<not> hum_out <s 0"
  shows "env_combo_read_raw data (Some ch) (Some v) IIO_CHAN_INFO_RAW =
           (IIO_VAL_INT, Some (hum_out + hum_calib data),
            locked_section data [Read_byte_data REG_STATUS, Read_byte_data REG_HUM_OUT])"
  using assms by (simp add: read_raw_unfold)

text \<open>All paths of a call that passed the argument checks.\<close>

lemma read_raw_paths:
  "env_combo_read_raw data (Some ch) (Some v) IIO_CHAN_INFO_RAW =
     (if bus_reply (client data) [] (Read_byte_data REG_STATUS) <s 0
      then (- EIO, Some v, locked_section data [Read_byte_data REG_STATUS])
      else case type ch of
        IIO_TEMP \<Rightarrow>
          if bus_reply (client data) [] (Read_byte_data REG_STATUS) AND STATUS_TEMP_RDY_MASK = 0
          then (- EAGAIN, Some v, locked_section data [Read_byte_data REG_STATUS])
          else if bus_reply (client data) [Read_byte_data REG_STATUS]
                    (Read_byte_data REG_TEMP_MSB) <s 0
          then (- EIO, Some v,
                locked_section data [Read_byte_data REG_STATUS, Read_byte_data REG_TEMP_MSB])
          else if bus_reply (client data)
                    [Read_byte_data REG_STATUS, Read_byte_data REG_TEMP_MSB]
                    (Read_byte_data REG_TEMP_LSB) <s 0
          then (- EIO, Some v,
                locked_section data
                  [Read_byte_data REG_STATUS, Read_byte_data REG_TEMP_MSB,
                   Read_byte_data REG_TEMP_LSB])
          else (IIO_VAL_INT,
                Some ((push_bit 8 (bus_reply (client data) [Read_byte_data REG_STATUS]
                                     (Read_byte_data REG_TEMP_MSB))
                       OR (bus_reply (client data)
                             [Read_byte_data REG_STATUS, Read_byte_data REG_TEMP_MSB]
                             (Read_byte_data REG_TEMP_LSB) AND 0xFF))
                      + temp_calib data),
                locked_section data
                  [Read_byte_data REG_STATUS, Read_byte_data REG_TEMP_MSB,
                   Read_byte_data REG_TEMP_LSB])
      | IIO_HUMIDITYRELATIVE \<Rightarrow>
          if bus_reply (client data) [] (Read_byte_data REG_STATUS) AND STATUS_HUM_RDY_MASK = 0
          then (- EAGAIN, Some v, locked_section data [Read_byte_data REG_STATUS])
          else if bus_reply (client data) [Read_byte_data REG_STATUS]
                    (Read_byte_data REG_HUM_OUT) <s 0
          then (- EIO, Some v,
                locked_section data [Read_byte_data REG_STATUS, Read_byte_data REG_HUM_OUT])
          else (IIO_VAL_INT,
                Some (bus_reply (client data) [Read_byte_data REG_STATUS]
                        (Read_byte_data REG_HUM_OUT) + hum_calib data),
                locked_section data [Read_byte_data REG_STATUS, Read_byte_data REG_HUM_OUT])
      | IIO_OTHER n \<Rightarrow> (- EINVAL, Some v, locked_section data [Read_byte_data REG_STATUS]))"
  by (cases "type ch") (simp_all add: read_raw_unfold drv_defs)

lemma read_raw_locked_section:
  "\<exists>xs. data_of (env_combo_read_raw data (Some ch) (Some v) IIO_CHAN_INFO_RAW) =
          locked_section data xs"
  by (cases "type ch") (auto simp: read_raw_paths)

lemma bus_reply_locked_section [simp]:
  "bus_reply (client (locked_section data xs)) issued x =
     bus_reply (client data) (xs @ issued) x"
  by (simp add: bus_reply_def locked_section_def issue_def)

lemma calib_locked_section [simp]:
  "temp_calib (locked_section data xs) = temp_calib data"
  "hum_calib (locked_section data xs) = hum_calib data"
  by (simp_all add: locked_section_def)

text \<open>What the example devices answer.\<close>

lemma bench_reply [simp]:
  "bus_reply (client bench) issued (Read_byte_data r) = bench_regs r"
  by (simp add: bus_reply_def bench_def fixed_registers_def)

lemma idle_bench_reply [simp]:
  "bus_reply (client idle_bench) issued (Read_byte_data r) = 0"
  by (simp add: bus_reply_def idle_bench_def fixed_registers_def)

lemma minus_EIO_negative [simp]: "- EIO <s 0"
  by (simp add: EIO_def word_sless_alt)

lemma dead_bench_reply [simp]:
  "bus_reply (client dead_bench) issued x = - EIO"
  by (simp add: bus_reply_def dead_bench_def)

lemma xfers_locked_section [simp]:
  "xfers (client (locked_section data xs)) = xfers (client data) @ xs"
  by (simp add: locked_section_def issue_def)

lemma bench_xfers [simp]:
  "xfers (client bench) = []" "xfers (client idle_bench) = []" "xfers (client dead_bench) = []"
  by (simp_all add: bench_def idle_bench_def dead_bench_def fixed_registers_def)

lemma bench_calib [simp]:
  "temp_calib bench = 258" "hum_calib bench = 5"
  "temp_calib idle_bench = 258" "hum_calib idle_bench = 5"
  by (simp_all add: bench_def idle_bench_def)

lemma bench_chan_types [simp]:
  "type temp_chan = IIO_TEMP" "type hum_chan = IIO_HUMIDITYRELATIVE"
  "type other_chan = IIO_OTHER 0"
  by (simp_all add: temp_chan_def hum_chan_def other_chan_def env_combo_channels_def)

section \<open>Reading a channel\<close>

text \<open>
  C1. A successful read of the temperature channel (status read succeeds, bit \<open>0x02\<close> set,
  both data reads succeed) stores \<open>((temp_msb << 8) | (temp_lsb & 0xFF)) + temp_calib\<close>
  and returns \<^verbatim>\<open>IIO_VAL_INT\<close>, having read the status register, then \<^verbatim>\<open>TEMP_MSB\<close>, then
  \<^verbatim>\<open>TEMP_LSB\<close>. A successful read of the humidity channel (bit \<open>0x04\<close> set) stores
  \<open>hum_out + hum_calib\<close>.
\<close>

theorem read_raw_success_value:
  assumes "info_mask = IIO_CHAN_INFO_RAW"
    and "status = bus_reply (client data) [] (Read_byte_data REG_STATUS)"
    and "\<not> status <s 0"
  shows "(type ch = IIO_TEMP \<and> status AND STATUS_TEMP_RDY_MASK \<noteq> 0
            \<and> temp_msb = bus_reply (client data) [Read_byte_data REG_STATUS]
                            (Read_byte_data REG_TEMP_MSB)
            \<and> \<not> temp_msb <s 0
            \<and> temp_lsb = bus_reply (client data)
                            [Read_byte_data REG_STATUS, Read_byte_data REG_TEMP_MSB]
                            (Read_byte_data REG_TEMP_LSB)
            \<and> \<not> temp_lsb <s 0
          \<longrightarrow> env_combo_read_raw data (Some ch) (Some v) info_mask =
                (IIO_VAL_INT,
                 Some ((push_bit 8 temp_msb OR (temp_lsb AND 0xFF)) + temp_calib data),
                 locked_section data
                   [Read_byte_data REG_STATUS, Read_byte_data REG_TEMP_MSB,
                    Read_byte_data REG_TEMP_LSB]))
       \<and> (type ch = IIO_HUMIDITYRELATIVE \<and> status AND STATUS_HUM_RDY_MASK \<noteq> 0
            \<and> hum_out = bus_reply (client data) [Read_byte_data REG_STATUS]
                           (Read_byte_data REG_HUM_OUT)
            \<and> \<not> hum_out <s 0
          \<longrightarrow> env_combo_read_raw data (Some ch) (Some v) info_mask =
                (IIO_VAL_INT, Some (hum_out + hum_calib data),
                 locked_section data
                   [Read_byte_data REG_STATUS, Read_byte_data REG_HUM_OUT]))"
proof (intro conjI impI)
  assume "type ch = IIO_TEMP \<and> status AND STATUS_TEMP_RDY_MASK \<noteq> 0
            \<and> temp_msb = bus_reply (client data) [Read_byte_data REG_STATUS]
                            (Read_byte_data REG_TEMP_MSB)
            \<and> \<not> temp_msb <s 0
            \<and> temp_lsb = bus_reply (client data)
                            [Read_byte_data REG_STATUS, Read_byte_data REG_TEMP_MSB]
                            (Read_byte_data REG_TEMP_LSB)
            \<and> \<not> temp_lsb <s 0"
  with assms show "env_combo_read_raw data (Some ch) (Some v) info_mask =
                (IIO_VAL_INT,
                 Some ((push_bit 8 temp_msb OR (temp_lsb AND 0xFF)) + temp_calib data),
                 locked_section data
                   [Read_byte_data REG_STATUS, Read_byte_data REG_TEMP_MSB,
                    Read_byte_data REG_TEMP_LSB])"
    by (auto intro!: read_raw_temp)
next
  assume "type ch = IIO_HUMIDITYRELATIVE \<and> status AND STATUS_HUM_RDY_MASK \<noteq> 0
            \<and> hum_out = bus_reply (client data) [Read_byte_data REG_STATUS]
                           (Read_byte_data REG_HUM_OUT)
            \<and> \<not> hum_out <s 0"
  with assms show "env_combo_read_raw data (Some ch) (Some v) info_mask =
                (IIO_VAL_INT, Some (hum_out + hum_calib data),
                 locked_section data
                   [Read_byte_data REG_STATUS, Read_byte_data REG_HUM_OUT])"
    by (auto intro!: read_raw_hum)
qed

text \<open>
  On the example session: \<^verbatim>\<open>TEMP_MSB = 0x00\<close>, \<^verbatim>\<open>TEMP_LSB = 0x64\<close> and offset 258 give 358;
  \<^verbatim>\<open>HUM_OUT = 0x32\<close> and offset 5 give 55.
\<close>

theorem read_raw_success_value_witness:
  "env_combo_read_raw bench (Some temp_chan) (Some 0) IIO_CHAN_INFO_RAW =
     (IIO_VAL_INT, Some 358,
      locked_section bench
        [Read_byte_data REG_STATUS, Read_byte_data REG_TEMP_MSB, Read_byte_data REG_TEMP_LSB])
   \<and> env_combo_read_raw bench (Some hum_chan) (Some 0) IIO_CHAN_INFO_RAW =
     (IIO_VAL_INT, Some 55,
      locked_section bench [Read_byte_data REG_STATUS, Read_byte_data REG_HUM_OUT])"
proof -
  have st: "(6::s32) = bus_reply (client bench) [] (Read_byte_data REG_STATUS)"
    by (simp add: bench_regs_def)
  have ok: "\<not> (6::s32) <s 0"
    by (simp add: word_sless_alt)
  note t = read_raw_success_value [OF refl st ok, where ch = temp_chan and v = 0
             and temp_msb = 0 and temp_lsb = "0x64", THEN conjunct1]
  note h = read_raw_success_value [OF refl st ok, where ch = hum_chan and v = 0
             and hum_out = "0x32", THEN conjunct2]
  have "env_combo_read_raw bench (Some temp_chan) (Some 0) IIO_CHAN_INFO_RAW =
     (IIO_VAL_INT, Some 358,
      locked_section bench
        [Read_byte_data REG_STATUS, Read_byte_data REG_TEMP_MSB, Read_byte_data REG_TEMP_LSB])"
    using t by (simp add: bench_regs_def reg_defs drv_defs word_sless_alt)
  moreover have "env_combo_read_raw bench (Some hum_chan) (Some 0) IIO_CHAN_INFO_RAW =
     (IIO_VAL_INT, Some 55,
      locked_section bench [Read_byte_data REG_STATUS, Read_byte_data REG_HUM_OUT])"
    using h by (simp add: bench_regs_def reg_defs drv_defs word_sless_alt)
  ultimately show ?thesis by simp
qed

text \<open>
  C3. When the status read succeeds and the readiness bit of the requested channel
  (\<open>0x02\<close> for temperature, \<open>0x04\<close> for humidity) is clear, the call returns \<^verbatim>\<open>-EAGAIN\<close>,
  leaves the output alone, and the status read is its only transaction: no data register
  is read.
\<close>

theorem read_raw_not_ready:
  assumes "info_mask = IIO_CHAN_INFO_RAW"
    and "status = bus_reply (client data) [] (Read_byte_data REG_STATUS)"
    and "\<not> status <s 0"
    and "type ch = IIO_TEMP \<and> status AND STATUS_TEMP_RDY_MASK = 0
         \<or> type ch = IIO_HUMIDITYRELATIVE \<and> status AND STATUS_HUM_RDY_MASK = 0"
  shows "env_combo_read_raw data (Some ch) (Some v) info_mask =
           (- EAGAIN, Some v, locked_section data [Read_byte_data REG_STATUS])
         \<and> xfers (client (data_of (env_combo_read_raw data (Some ch) (Some v) info_mask))) =
             xfers (client data) @ [Read_byte_data REG_STATUS]"
  using assms by (auto simp: read_raw_temp_not_ready read_raw_hum_not_ready)

theorem read_raw_not_ready_witness:
  "env_combo_read_raw idle_bench (Some temp_chan) (Some 7) IIO_CHAN_INFO_RAW =
     (- EAGAIN, Some 7, locked_section idle_bench [Read_byte_data REG_STATUS])
   \<and> xfers (client (data_of
        (env_combo_read_raw idle_bench (Some hum_chan) (Some 7) IIO_CHAN_INFO_RAW))) =
     [Read_byte_data REG_STATUS]"
proof -
  have st: "(0::s32) = bus_reply (client idle_bench) [] (Read_byte_data REG_STATUS)"
    by simp
  have ok: "\<not> (0::s32) <s 0"
    by simp
  have t: "type temp_chan = IIO_TEMP \<and> (0::s32) AND STATUS_TEMP_RDY_MASK = 0
           \<or> type temp_chan = IIO_HUMIDITYRELATIVE \<and> (0::s32) AND STATUS_HUM_RDY_MASK = 0"
    by simp
  have h: "type hum_chan = IIO_TEMP \<and> (0::s32) AND STATUS_TEMP_RDY_MASK = 0
           \<or> type hum_chan = IIO_HUMIDITYRELATIVE \<and> (0::s32) AND STATUS_HUM_RDY_MASK = 0"
    by simp
  from read_raw_not_ready [OF refl st ok t, of 7] read_raw_not_ready [OF refl st ok h, of 7]
  show ?thesis by simp
qed

text \<open>
  C4, as the driver has it. The status register is read before the switch on the channel
  type: for a channel type other than temperature and humidity the call issues exactly that
  one read, and returns \<^verbatim>\<open>-EINVAL\<close> when the read succeeded and \<^verbatim>\<open>-EIO\<close> when it
  failed. The output is left alone.
\<close>

theorem read_raw_other_channel:
  assumes "type ch \<noteq> IIO_TEMP" and "type ch \<noteq> IIO_HUMIDITYRELATIVE"
    and "info_mask = IIO_CHAN_INFO_RAW"
  shows "env_combo_read_raw data (Some ch) (Some v) info_mask =
           (if bus_reply (client data) [] (Read_byte_data REG_STATUS) <s 0 then - EIO
            else - EINVAL,
            Some v, locked_section data [Read_byte_data REG_STATUS])"
  using assms by (cases "type ch") (simp_all add: read_raw_unfold)

theorem read_raw_other_channel_witness:
  "env_combo_read_raw bench (Some other_chan) (Some 7) IIO_CHAN_INFO_RAW =
     (- EINVAL, Some 7, locked_section bench [Read_byte_data REG_STATUS])"
proof -
  have a: "type other_chan \<noteq> IIO_TEMP" and b: "type other_chan \<noteq> IIO_HUMIDITYRELATIVE"
    by simp_all
  from read_raw_other_channel [OF a b refl, of bench 7]
  show ?thesis by (simp add: bench_regs_def word_sless_alt)
qed

text \<open>
  The specification's statement that such a call issues no transaction and always returns \<^verbatim>\<open>-EINVAL\<close> fails:
  on the example session the status register is read, and on a dead bus the call returns
  \<^verbatim>\<open>-EIO\<close>.
\<close>

theorem read_raw_other_channel_counterexample:
  "type other_chan \<notin> {IIO_TEMP, IIO_HUMIDITYRELATIVE}
   \<and> xfers (client bench) = []
   \<and> xfers (client (data_of
        (env_combo_read_raw bench (Some other_chan) (Some 7) IIO_CHAN_INFO_RAW))) =
       [Read_byte_data REG_STATUS]
   \<and> ret_of (env_combo_read_raw dead_bench (Some other_chan) (Some 7) IIO_CHAN_INFO_RAW) = - EIO
   \<and> - EIO \<noteq> - EINVAL"
  by (simp add: read_raw_unfold bench_defs errno_defs word_sless_alt)

text \<open>
  C7. Whatever the call returns, the calibration offsets of the private data are the same
  afterwards, and so is the behaviour of the bus handle; the mutex is either untouched or
  was taken once and is released.
\<close>

theorem read_raw_preserves_calibration:
  "temp_calib (data_of (env_combo_read_raw data chan val info_mask)) = temp_calib data
   \<and> hum_calib (data_of (env_combo_read_raw data chan val info_mask)) = hum_calib data
   \<and> adapter (client (data_of (env_combo_read_raw data chan val info_mask))) =
       adapter (client data)
   \<and> (lock (data_of (env_combo_read_raw data chan val info_mask)) = lock data
      \<or> lock (data_of (env_combo_read_raw data chan val info_mask)) =
          \<lparr>held = False, acquired = Suc (acquired (lock data))\<rparr>)"
  by (simp add: read_raw_unfold split: option.splits iio_chan_type.splits)

text \<open>
  C9. With an info mask other than \<^verbatim>\<open>IIO_CHAN_INFO_RAW\<close> the call returns \<^verbatim>\<open>-EINVAL\<close> and
  leaves the output and the private data as they were: the mutex has not been taken and no
  transaction has been issued.
\<close>

theorem read_raw_bad_mask:
  "info_mask \<noteq> IIO_CHAN_INFO_RAW \<Longrightarrow>
   env_combo_read_raw data chan val info_mask = (- EINVAL, val, data)"
  by (simp add: env_combo_read_raw_def split: option.splits)

theorem read_raw_bad_mask_witness:
  "(1::s64) \<noteq> IIO_CHAN_INFO_RAW
   \<and> env_combo_read_raw bench (Some temp_chan) (Some 7) 1 = (- EINVAL, Some 7, bench)
   \<and> acquired (lock (data_of (env_combo_read_raw bench (Some temp_chan) (Some 7) 1))) = 0
   \<and> xfers (client (data_of (env_combo_read_raw bench (Some temp_chan) (Some 7) 1))) = []"
proof -
  have m: "(1::s64) \<noteq> IIO_CHAN_INFO_RAW"
    by (simp add: IIO_CHAN_INFO_RAW_def)
  from read_raw_bad_mask [OF m, of bench "Some temp_chan" "Some 7"] m
  show ?thesis by (simp add: bench_def mutex_init_def fixed_registers_def)
qed

text \<open>
  C10. The call returns \<^verbatim>\<open>IIO_VAL_INT\<close>, \<^verbatim>\<open>-EIO\<close>, \<^verbatim>\<open>-EAGAIN\<close> or \<^verbatim>\<open>-EINVAL\<close>, and
  unless it returns \<^verbatim>\<open>IIO_VAL_INT\<close> the caller's output location holds what it held
  before.
\<close>

theorem read_raw_output_untouched_on_failure:
  "ret_of (env_combo_read_raw data chan val info_mask) \<in> {IIO_VAL_INT, - EIO, - EAGAIN, - EINVAL}
   \<and> (ret_of (env_combo_read_raw data chan val info_mask) \<noteq> IIO_VAL_INT
        \<longrightarrow> val_of (env_combo_read_raw data chan val info_mask) = val)"
  by (simp add: read_raw_unfold split: option.splits iio_chan_type.splits)

theorem read_raw_output_untouched_on_failure_witness:
  "ret_of (env_combo_read_raw idle_bench (Some temp_chan) (Some 7) IIO_CHAN_INFO_RAW) \<noteq> IIO_VAL_INT
   \<and> val_of (env_combo_read_raw idle_bench (Some temp_chan) (Some 7) IIO_CHAN_INFO_RAW) = Some 7"
proof -
  have f: "ret_of (env_combo_read_raw idle_bench (Some temp_chan) (Some 7) IIO_CHAN_INFO_RAW)
             \<noteq> IIO_VAL_INT"
    by (simp add: read_raw_unfold bench_defs errno_defs drv_defs reg_defs)
  from read_raw_output_untouched_on_failure
         [of idle_bench "Some temp_chan" "Some 7" IIO_CHAN_INFO_RAW, THEN conjunct2, rule_format, OF f] f
  show ?thesis by simp
qed

text \<open>
  C8. On a device whose registers answer every read from now on as they answer it now,
  a second call with the same arguments, made on the private data the first call left
  behind, returns what the first call returned and stores what it stored.
\<close>

theorem read_raw_repeatable:
  assumes "\<forall>issued r. bus_reply (client data) issued (Read_byte_data r) =
             bus_reply (client data) [] (Read_byte_data r)"
  shows "ret_of (env_combo_read_raw (data_of (env_combo_read_raw data chan val info_mask))
                   chan val info_mask) =
           ret_of (env_combo_read_raw data chan val info_mask)
         \<and> val_of (env_combo_read_raw (data_of (env_combo_read_raw data chan val info_mask))
                     chan val info_mask) =
           val_of (env_combo_read_raw data chan val info_mask)"
proof (cases "\<exists>ch v. chan = Some ch \<and> val = Some v \<and> info_mask = IIO_CHAN_INFO_RAW")
  case False
  then show ?thesis
    by (cases chan; cases val) (simp_all add: env_combo_read_raw_def)
next
  case True
  then obtain ch v where args: "chan = Some ch" "val = Some v" "info_mask = IIO_CHAN_INFO_RAW"
    by blast
  obtain xs where after:
    "data_of (env_combo_read_raw data (Some ch) (Some v) IIO_CHAN_INFO_RAW) =
       locked_section data xs"
    using read_raw_locked_section by blast
  define regs where "regs r = bus_reply (client data) [] (Read_byte_data r)" for r
  have steady: "bus_reply (client data) issued (Read_byte_data r) = regs r" for issued r
    using assms by (simp add: regs_def)
  show ?thesis
    unfolding args after
    by (cases "type ch") (simp_all add: read_raw_paths steady)
qed

theorem read_raw_repeatable_witness:
  "val_of (env_combo_read_raw bench (Some temp_chan) (Some 0) IIO_CHAN_INFO_RAW) = Some 358
   \<and> val_of (env_combo_read_raw
               (data_of (env_combo_read_raw bench (Some temp_chan) (Some 0) IIO_CHAN_INFO_RAW))
               (Some temp_chan) (Some 0) IIO_CHAN_INFO_RAW) = Some 358
   \<and> ret_of (env_combo_read_raw
               (data_of (env_combo_read_raw bench (Some temp_chan) (Some 0) IIO_CHAN_INFO_RAW))
               (Some temp_chan) (Some 0) IIO_CHAN_INFO_RAW) = IIO_VAL_INT"
proof -
  have steady: "\<forall>issued r. bus_reply (client bench) issued (Read_byte_data r) =
                  bus_reply (client bench) [] (Read_byte_data r)"
    by simp
  have first: "env_combo_read_raw bench (Some temp_chan) (Some 0) IIO_CHAN_INFO_RAW =
     (IIO_VAL_INT, Some 358,
      locked_section bench
        [Read_byte_data REG_STATUS, Read_byte_data REG_TEMP_MSB, Read_byte_data REG_TEMP_LSB])"
    by (simp add: read_raw_unfold bench_defs reg_defs drv_defs word_sless_alt)
  from read_raw_repeatable [OF steady, of "Some temp_chan" "Some 0" IIO_CHAN_INFO_RAW] first
  show ?thesis by simp
qed

section \<open>The paths of \<^verbatim>\<open>env_combo_probe\<close>\<close>

lemmas probe_bench_defs =
  good_client_def ff_client_def wrong_id_client_def cfg_fail_client_def
  calib_fail_client_def good_regs_def fixed_registers_def env_combo_id_def

lemmas probe_unfold =
  env_combo_probe_def i2c_smbus_read_byte_data_def i2c_smbus_write_byte_data_def
  Let_def split_def

lemmas probe_eval =
  probe_unfold probe_bench_defs probe_reply_def probe_sequence_def bus_reply_def issue_def
  reg_defs drv_defs errno_defs mutex_init_def word_sless_alt

text \<open>The paths of \<^verbatim>\<open>env_combo_probe\<close> once both pointers are there.\<close>

lemma probe_steps:
  "env_combo_probe (Some cl) (Some i) alloc_ok register_ret =
     (if probe_reply cl 0 <s 0 \<or> probe_reply cl 0 \<noteq> WHO_AM_I_EXPECTED
      then (- ENODEV, Some (issue cl (take 1 probe_sequence)), None)
      else if \<not> alloc_ok
      then (- ENOMEM, Some (issue cl (take 1 probe_sequence)), None)
      else if probe_reply cl 1 <s 0
      then (- EIO, Some (issue cl (take 2 probe_sequence)), None)
      else if probe_reply cl 2 <s 0
      then (- EIO, Some (issue cl (take 3 probe_sequence)), None)
      else if probe_reply cl 3 <s 0
      then (- EIO, Some (issue cl (take 4 probe_sequence)), None)
      else if probe_reply cl 4 <s 0
      then (probe_reply cl 4, Some (issue cl probe_sequence), None)
      else (register_ret, Some (issue cl probe_sequence),
            if register_ret \<noteq> 0 then None
            else Some \<lparr>client = issue cl probe_sequence, lock = mutex_init,
                       temp_calib = push_bit 8 (probe_reply cl 1) OR probe_reply cl 2,
                       hum_calib = probe_reply cl 3\<rparr>))"
  by (simp add: probe_unfold probe_reply_def probe_sequence_def bus_reply_def issue_def
      CFG_DEFAULT_def CFG_TEMP_EN_def TEMP_SHIFT_BITS_def WHO_AM_I_EXPECTED_def
      word_sless_alt)

text \<open>Two's complement reading of a word assembled from bytes.\<close>

lemma int_shift_or_byte:
  fixes a b :: int
  assumes "0 \<le> b" "b < 256"
  shows "push_bit 8 a OR b = 256 * a + b"
proof -
  have b: "take_bit 8 b = b"
    using assms by (simp add: take_bit_int_eq_self)
  have "push_bit 8 a AND take_bit 8 b = 0"
    by (rule bit_eqI) (simp add: bit_simps)
  then have "push_bit 8 a + take_bit 8 b = push_bit 8 a OR take_bit 8 b"
    by (rule disjunctive_add_eq_or)
  then show ?thesis
    by (simp add: b push_bit_eq_mult)
qed

lemma sint_small:
  fixes w :: s32
  assumes "0 \<le> k" "k \<le> 65535" "uint w = k"
  shows "sint w = k"
proof -
  have "sint w = signed_take_bit 31 k"
    using assms by (simp add: sint_uint)
  also have "\<dots> = k"
    using assms by (intro signed_take_bit_int_eq_self) simp_all
  finally show ?thesis .
qed

lemma sint_shift_or_bytes:
  fixes msb lsb :: s32
  assumes "msb \<le> 0xFF" "lsb \<le> 0xFF"
  shows "sint (push_bit 8 msb OR lsb) = 256 * uint msb + uint lsb"
proof -
  define a b where "a = uint msb" and "b = uint lsb"
  have a: "0 \<le> a" "a \<le> 255" and b: "0 \<le> b" "b \<le> 255"
    using assms by (simp_all add: a_def b_def word_le_def)
  have "take_bit 32 (push_bit 8 a) = push_bit 8 a"
    using a by (simp add: take_bit_int_eq_self push_bit_eq_mult)
  then have "uint (push_bit 8 msb OR lsb) = push_bit 8 a OR b"
    by (simp add: uint_or unsigned_push_bit_eq a_def b_def)
  also have "\<dots> = 256 * a + b"
    using b by (simp add: int_shift_or_byte)
  finally have u: "uint (push_bit 8 msb OR lsb) = 256 * a + b" .
  have "sint (push_bit 8 msb OR lsb) = 256 * a + b"
    using a b by (intro sint_small u) simp_all
  then show ?thesis
    by (simp add: a_def b_def)
qed

lemma sint_byte:
  fixes w :: s32
  assumes "w \<le> 0xFF"
  shows "sint w = uint w"
proof -
  define k where "k = uint w"
  have "0 \<le> k" "k \<le> 255"
    using assms by (simp_all add: k_def word_le_def)
  then have "sint w = k"
    by (intro sint_small) (simp_all add: k_def)
  then show ?thesis
    by (simp add: k_def)
qed

text \<open>What the example devices answer during a probe.\<close>

lemma good_client_replies:
  "probe_reply good_client 0 = 0xEB" "probe_reply good_client 1 = 0x01"
  "probe_reply good_client (Suc 0) = 0x01"
  "probe_reply good_client 2 = 0x02" "probe_reply good_client 3 = 0x05"
  "probe_reply good_client 4 = 0"
  by (simp_all add: probe_eval)

lemma ff_client_replies:
  "probe_reply ff_client 0 = 0xEB" "probe_reply ff_client 1 = 0xFF"
  "probe_reply ff_client (Suc 0) = 0xFF"
  "probe_reply ff_client 2 = 0xFF" "probe_reply ff_client 3 = 0xFF"
  "probe_reply ff_client 4 = 0"
  by (simp_all add: probe_eval)

lemma wrong_id_client_replies:
  "probe_reply wrong_id_client 0 = 0"
  by (simp_all add: probe_eval)

lemma calib_fail_client_replies:
  "probe_reply calib_fail_client 0 = 0xEB" "probe_reply calib_fail_client 1 = - EIO"
  "probe_reply calib_fail_client (Suc 0) = - EIO"
  by (simp_all add: probe_eval)

lemma cfg_fail_client_replies:
  "probe_reply cfg_fail_client 0 = 0xEB" "probe_reply cfg_fail_client 1 = 0x01"
  "probe_reply cfg_fail_client (Suc 0) = 0x01"
  "probe_reply cfg_fail_client 2 = 0x02" "probe_reply cfg_fail_client 3 = 0x05"
  "probe_reply cfg_fail_client 4 = - EIO"
  by (simp_all add: probe_eval)

section \<open>Calibration offsets\<close>

text \<open>
  C2, as the driver has it. Probe stores the calibration in C \<^verbatim>\<open>int\<close> fields with no
  sign extension: for calibration bytes (0 to 255) the temperature offset is
  \<open>256 * msb + lsb\<close>, between 0 and 65535, and the humidity offset is the byte itself,
  between 0 and 255. Neither is ever negative.
\<close>

theorem probe_calibration_unsigned:
  assumes "session_of (env_combo_probe (Some cl) (Some i) alloc_ok register_ret) = Some d"
    and "calib_msb = probe_reply cl 1" and "calib_lsb = probe_reply cl 2"
    and "calib_hum = probe_reply cl 3"
    and "calib_msb \<le> 0xFF" and "calib_lsb \<le> 0xFF" and "calib_hum \<le> 0xFF"
  shows "temp_calib d = push_bit 8 calib_msb OR calib_lsb
         \<and> sint (temp_calib d) = 256 * uint calib_msb + uint calib_lsb
         \<and> 0 \<le> sint (temp_calib d) \<and> sint (temp_calib d) \<le> 65535
         \<and> hum_calib d = calib_hum
         \<and> sint (hum_calib d) = uint calib_hum
         \<and> 0 \<le> sint (hum_calib d) \<and> sint (hum_calib d) \<le> 255"
proof -
  from assms(1) have d: "temp_calib d = push_bit 8 calib_msb OR calib_lsb"
    "hum_calib d = calib_hum"
    by (auto simp: probe_steps assms(2-4) split: if_splits)
  have t: "sint (temp_calib d) = 256 * uint calib_msb + uint calib_lsb"
    using assms(5,6) by (simp add: d sint_shift_or_bytes)
  have h: "sint (hum_calib d) = uint calib_hum"
    using assms(7) by (simp add: d sint_byte)
  have "uint calib_msb \<le> 255" "uint calib_lsb \<le> 255" "uint calib_hum \<le> 255"
    using assms(5-7) by (simp_all add: word_le_def)
  with d t h show ?thesis
    by simp
qed

theorem probe_calibration_unsigned_witness:
  "session_of (env_combo_probe (Some ff_client) (Some (hd env_combo_id)) True 0) =
     Some ff_session
   \<and> sint (temp_calib ff_session) = 65535 \<and> sint (hum_calib ff_session) = 255"
proof -
  have s: "session_of (env_combo_probe (Some ff_client) (Some (hd env_combo_id)) True 0) =
     Some ff_session"
    by (simp add: probe_steps ff_client_replies ff_session_def WHO_AM_I_EXPECTED_def
        word_sless_alt)
  have r: "(0xFF::s32) = probe_reply ff_client 1" "(0xFF::s32) = probe_reply ff_client 2"
    "(0xFF::s32) = probe_reply ff_client 3"
    by (simp_all add: ff_client_replies)
  have b: "(0xFF::s32) \<le> 0xFF"
    by simp
  from probe_calibration_unsigned [OF s r b b b] s
  show ?thesis by simp
qed

text \<open>
  The specification's statement that the offsets are signed 16-bit and 8-bit values fails: calibration bytes
  \<open>0xFF\<close>, \<open>0xFF\<close> give the temperature offset 65535, not -1, and the humidity calibration
  byte \<open>0xFF\<close> gives 255, not -1.
\<close>

theorem probe_calibration_signed_counterexample:
  "map_option temp_calib
     (session_of (env_combo_probe (Some ff_client) (Some (hd env_combo_id)) True 0)) = Some 0xFFFF
   \<and> sint (0xFFFF :: s32) = 65535
   \<and> map_option hum_calib
     (session_of (env_combo_probe (Some ff_client) (Some (hd env_combo_id)) True 0)) = Some 0xFF
   \<and> sint (0xFF :: s32) = 255"
  by (simp add: probe_steps ff_client_replies WHO_AM_I_EXPECTED_def word_sless_alt)

section \<open>The steps of probe\<close>

text \<open>
  C5, as the driver has it. When the identity read fails or returns anything but \<open>0xEB\<close>,
  probe returns \<^verbatim>\<open>-ENODEV\<close>, registers nothing, and the identity read is its only
  transaction. When the identity register returns \<open>0xEB\<close>, the calibration reads and the
  configuration write succeed, and moreover the IIO device could be allocated and its
  registration returns 0, probe returns 0 and registers the session with the calibration
  read from the device.
\<close>

theorem probe_identity_gate:
  assumes "id_reg = probe_reply cl 0"
  shows "(id_reg <s 0 \<or> id_reg \<noteq> 0xEB
          \<longrightarrow> env_combo_probe (Some cl) (Some i) alloc_ok register_ret =
                (- ENODEV, Some (issue cl [Read_byte_data REG_WHO_AM_I]), None))
       \<and> (id_reg = 0xEB \<and> alloc_ok
            \<and> \<not> probe_reply cl 1 <s 0 \<and> \<not> probe_reply cl 2 <s 0
            \<and> \<not> probe_reply cl 3 <s 0 \<and> \<not> probe_reply cl 4 <s 0
            \<and> register_ret = 0
          \<longrightarrow> env_combo_probe (Some cl) (Some i) alloc_ok register_ret =
                (0, Some (issue cl probe_sequence),
                 Some \<lparr>client = issue cl probe_sequence, lock = mutex_init,
                       temp_calib = push_bit 8 (probe_reply cl 1) OR probe_reply cl 2,
                       hum_calib = probe_reply cl 3\<rparr>))"
  using assms
  by (simp add: probe_steps WHO_AM_I_EXPECTED_def word_sless_alt probe_sequence_def)

theorem probe_identity_gate_witness:
  "env_combo_probe (Some wrong_id_client) (Some (hd env_combo_id)) True 0 =
     (- ENODEV, Some (issue wrong_id_client [Read_byte_data REG_WHO_AM_I]), None)
   \<and> env_combo_probe (Some good_client) (Some (hd env_combo_id)) True 0 =
     (0, Some (issue good_client probe_sequence), Some good_session)"
proof -
  have w: "(0::s32) = probe_reply wrong_id_client 0"
    by (simp add: wrong_id_client_replies)
  have g: "(0xEB::s32) = probe_reply good_client 0"
    by (simp add: good_client_replies)
  from probe_identity_gate [OF w, of "hd env_combo_id" True 0, THEN conjunct1]
       probe_identity_gate [OF g, of "hd env_combo_id" True 0, THEN conjunct2]
  show ?thesis
    by (simp add: good_client_replies good_session_def word_sless_alt)
qed

text \<open>
  The specification's statement that a matching identity with successful calibration reads and configuration
  write is enough fails: with every bus transaction successful, probe still fails when the
  registration of the IIO device fails (here with \<^verbatim>\<open>-ENOMEM\<close>), and it fails before any
  calibration read when the IIO device cannot be allocated.
\<close>

theorem probe_identity_gate_counterexample:
  "probe_reply good_client 0 = 0xEB
   \<and> \<not> probe_reply good_client 1 <s 0 \<and> \<not> probe_reply good_client 2 <s 0
   \<and> \<not> probe_reply good_client 3 <s 0 \<and> \<not> probe_reply good_client 4 <s 0
   \<and> env_combo_probe (Some good_client) (Some (hd env_combo_id)) True (- ENOMEM) =
       (- ENOMEM, Some (issue good_client probe_sequence), None)
   \<and> env_combo_probe (Some good_client) (Some (hd env_combo_id)) False 0 =
       (- ENOMEM, Some (issue good_client [Read_byte_data REG_WHO_AM_I]), None)"
  by (simp add: probe_steps good_client_replies WHO_AM_I_EXPECTED_def word_sless_alt
      ENOMEM_def probe_sequence_def)

text \<open>
  C6, as the driver has it. The transactions of probe are an initial part of the sequence
  identity read, calibration MSB read, calibration LSB read, humidity calibration read,
  write of \<open>0x40\<close> to the configuration register. The first step that fails ends probe:
  the identity check with \<^verbatim>\<open>-ENODEV\<close>, the allocation of the IIO device (after the
  identity check) with \<^verbatim>\<open>-ENOMEM\<close>, a calibration read with \<^verbatim>\<open>-EIO\<close>, the
  configuration write with the very error code that the bus returned for it. A session is
  registered only when probe returns 0 after the whole sequence, and never when it returns
  an error.
\<close>

theorem probe_order_and_errors:
  assumes "r = env_combo_probe (Some cl) (Some i) alloc_ok register_ret"
    and "ident_ok = (\<not> probe_reply cl 0 <s 0 \<and> probe_reply cl 0 = WHO_AM_I_EXPECTED)"
  shows "(\<exists>n. n \<le> 5 \<and> client_of r = Some (issue cl (take n probe_sequence)))
       \<and> (\<not> ident_ok
          \<longrightarrow> ret_of r = - ENODEV \<and> session_of r = None
              \<and> client_of r = Some (issue cl (take 1 probe_sequence)))
       \<and> (ident_ok \<and> \<not> alloc_ok
          \<longrightarrow> ret_of r = - ENOMEM \<and> session_of r = None
              \<and> client_of r = Some (issue cl (take 1 probe_sequence)))
       \<and> (ident_ok \<and> alloc_ok \<and> probe_reply cl 1 <s 0
          \<longrightarrow> ret_of r = - EIO \<and> session_of r = None
              \<and> client_of r = Some (issue cl (take 2 probe_sequence)))
       \<and> (ident_ok \<and> alloc_ok \<and> \<not> probe_reply cl 1 <s 0 \<and> probe_reply cl 2 <s 0
          \<longrightarrow> ret_of r = - EIO \<and> session_of r = None
              \<and> client_of r = Some (issue cl (take 3 probe_sequence)))
       \<and> (ident_ok \<and> alloc_ok \<and> \<not> probe_reply cl 1 <s 0 \<and> \<not> probe_reply cl 2 <s 0
            \<and> probe_reply cl 3 <s 0
          \<longrightarrow> ret_of r = - EIO \<and> session_of r = None
              \<and> client_of r = Some (issue cl (take 4 probe_sequence)))
       \<and> (ident_ok \<and> alloc_ok \<and> \<not> probe_reply cl 1 <s 0 \<and> \<not> probe_reply cl 2 <s 0
            \<and> \<not> probe_reply cl 3 <s 0 \<and> probe_reply cl 4 <s 0
          \<longrightarrow> ret_of r = probe_reply cl 4 \<and> session_of r = None
              \<and> client_of r = Some (issue cl probe_sequence))
       \<and> (session_of r \<noteq> None
          \<longrightarrow> ret_of r = 0 \<and> client_of r = Some (issue cl probe_sequence)
              \<and> ident_ok \<and> alloc_ok \<and> \<not> probe_reply cl 1 <s 0 \<and> \<not> probe_reply cl 2 <s 0
              \<and> \<not> probe_reply cl 3 <s 0 \<and> \<not> probe_reply cl 4 <s 0)
       \<and> (ret_of r \<noteq> 0 \<longrightarrow> session_of r = None)"
proof (intro conjI)
  have whole: "take 5 probe_sequence = probe_sequence"
    by (simp add: probe_sequence_def)
  have "client_of r = Some (issue cl (take 1 probe_sequence))
        \<or> client_of r = Some (issue cl (take 2 probe_sequence))
        \<or> client_of r = Some (issue cl (take 3 probe_sequence))
        \<or> client_of r = Some (issue cl (take 4 probe_sequence))
        \<or> client_of r = Some (issue cl (take 5 probe_sequence))"
    unfolding whole by (simp add: assms(1) probe_steps)
  then show "\<exists>n. n \<le> 5 \<and> client_of r = Some (issue cl (take n probe_sequence))"
    by (elim disjE) (rule exI [of _ 1], simp, rule exI [of _ 2], simp,
      rule exI [of _ 3], simp, rule exI [of _ 4], simp, rule exI [of _ 5], simp)
qed (auto simp: assms probe_steps errno_defs word_sless_alt)

theorem probe_order_and_errors_witness:
  "ret_of (env_combo_probe (Some cfg_fail_client) (Some (hd env_combo_id)) True 0) = - EIO
   \<and> session_of (env_combo_probe (Some cfg_fail_client) (Some (hd env_combo_id)) True 0) = None
   \<and> client_of (env_combo_probe (Some cfg_fail_client) (Some (hd env_combo_id)) True 0) =
       Some (issue cfg_fail_client probe_sequence)"
proof -
  have ident: "True = (\<not> probe_reply cfg_fail_client 0 <s 0
                 \<and> probe_reply cfg_fail_client 0 = WHO_AM_I_EXPECTED)"
    by (simp add: cfg_fail_client_replies WHO_AM_I_EXPECTED_def word_sless_alt)
  from probe_order_and_errors [OF refl ident, of "hd env_combo_id" True 0]
  show ?thesis
    by (simp add: cfg_fail_client_replies word_sless_alt EIO_def)
qed

text \<open>
  The specification's statement that a failed configuration write is reported with an error kind of its own
  fails: on a bus that answers the write with \<^verbatim>\<open>-EIO\<close> probe returns \<^verbatim>\<open>-EIO\<close>, the code
  it returns for a failed calibration read.
\<close>

theorem probe_order_and_errors_counterexample:
  "probe_reply cfg_fail_client 4 <s 0
   \<and> ret_of (env_combo_probe (Some cfg_fail_client) (Some (hd env_combo_id)) True 0) = - EIO
   \<and> probe_reply calib_fail_client 1 <s 0
   \<and> ret_of (env_combo_probe (Some calib_fail_client) (Some (hd env_combo_id)) True 0) = - EIO"
  by (simp add: probe_steps cfg_fail_client_replies calib_fail_client_replies
      WHO_AM_I_EXPECTED_def word_sless_alt EIO_def)

end
